theory Spec2Isabelle
  imports Main "HOL-Library.Word"
begin

unbundle bit_operations_syntax

section \<open>The API client of termius/core/api.py\<close>

text \<open>
  The module talks to the sync cloud through the \<^verbatim>\<open>requests\<close> library. The model keeps
  what the module itself does: how it builds each request, how it signs it, how it
  classifies the response, what it returns or raises, and what it stores in
  \<^verbatim>\<open>self.auth\<close>. The network and the JSON decoder belong to the library and are
  parameters of the operations:
  \<^item> \<open>send\<close> stands for \<^verbatim>\<open>requests.get/post/put/delete\<close>: it takes the request the
    module asked for and gives the response, or the message of a transport failure;
  \<^item> \<open>loads\<close> stands for the decoder behind \<^verbatim>\<open>response.json()\<close>: it gives the decoded
    value of a body text, or \<open>None\<close> where the text is not a JSON document (there
    \<^verbatim>\<open>response.json()\<close> raises a \<^verbatim>\<open>ValueError\<close>).
  Calls to the logger are left out: they change nothing the module returns or stores.
\<close>

subsection \<open>Values\<close>

text \<open>
  A decoded JSON value, as the Python object that the decoder builds: \<^verbatim>\<open>None\<close>, a
  \<^verbatim>\<open>bool\<close>, an \<^verbatim>\<open>int\<close>, a \<^verbatim>\<open>float\<close> (kept as the text that Python prints for it), a
  \<^verbatim>\<open>str\<close>, a \<^verbatim>\<open>list\<close>, or a \<^verbatim>\<open>dict\<close> (its members in the order of insertion, each
  key once, read with \<open>map_of\<close>). In a response, \<open>body_text\<close> is the source's
  \<^verbatim>\<open>response.text\<close>.
\<close>

datatype json =
    JNull
  | JBool bool
  | JInt int
  | JFloat string
  | JString string
  | JArray "json list"
  | JObject "(string \<times> json) list"

record response =
  status_code :: int
  body_text :: string

text \<open>
  What an exception of the module is constructed with: a string, or the bound method
  \<^verbatim>\<open>response.json\<close> of a response (the method itself, which nobody has called).
\<close>

datatype exc_arg =
    Str string
  | Method_json response

text \<open>
  The failures a call can end with. \<open>AuthyTokenIssue\<close> and \<open>OutdatedVersion\<close> are the
  module's own exceptions, \<open>AssertionError\<close> is what a failed \<^verbatim>\<open>assert\<close> raises, with
  the value after the comma as its argument. The others come from the library calls the
  module makes: \<open>ValueError\<close> from \<^verbatim>\<open>response.json()\<close>, \<open>KeyError\<close> and \<open>TypeError\<close>
  from the subscript \<^verbatim>\<open>response_payload['token']\<close>, \<open>UnicodeEncodeError\<close> from
  \<^verbatim>\<open>six.b\<close>, \<open>RequestException\<close> from the transport.
\<close>

datatype error =
    AuthyTokenIssue exc_arg
  | OutdatedVersion exc_arg
  | AssertionError exc_arg
  | ValueError
  | KeyError string
  | TypeError
  | UnicodeEncodeError
  | RequestException string

subsection \<open>TermiusAuth\<close>

record TermiusAuth =
  username :: string
  apikey :: string

definition header_name :: string where
  "header_name = ''Authorization''"

definition auth_header :: "TermiusAuth \<Rightarrow> string" where
  "auth_header a = ''ApiKey '' @ username a @ '':'' @ apikey a"

datatype http_method = GET | POST | PUT | DELETE

text \<open>
  A request as the module asks for it: the method, the URL, the header dictionary, the
  form payload (\<^verbatim>\<open>data=\<close>), the JSON payload (\<^verbatim>\<open>json=\<close>) and the timeout in seconds.
\<close>

record request =
  http :: http_method
  url :: string
  headers :: "string \<rightharpoonup> string"
  form_data :: "(string \<rightharpoonup> string) option"
  json_data :: "json option"
  timeout_s :: "nat option"

text \<open>\<^verbatim>\<open>TermiusAuth.__call__\<close>: one assignment into the header dictionary.\<close>

definition call_auth :: "TermiusAuth \<Rightarrow> request \<Rightarrow> request" where
  "call_auth a r = r\<lparr>headers := (headers r)(header_name \<mapsto> auth_header a)\<rparr>"

subsection \<open>API\<close>

record API =
  auth :: "TermiusAuth option"

definition host :: string where
  "host = ''api.termius.com''"

definition base_url :: string where
  "base_url = ''https://'' @ host @ ''/api/''"

definition timeout :: nat where
  "timeout = 180"

text \<open>
  \<^verbatim>\<open>API.__init__(username=None, apikey=None)\<close>. The test \<^verbatim>\<open>if username and apikey\<close> takes
  Python's truth value of each argument: \<^verbatim>\<open>None\<close> and the empty string are false, every
  other string is true.
\<close>

definition truthy :: "string option \<Rightarrow> bool" where
  "truthy x = (case x of None \<Rightarrow> False | Some s \<Rightarrow> s \<noteq> [])"

definition API_init :: "string option \<Rightarrow> string option \<Rightarrow> API" where
  "API_init u k =
     (case (u, k) of
        (Some un, Some ak) \<Rightarrow>
          if truthy u \<and> truthy k
          then \<lparr>auth = Some \<lparr>username = un, apikey = ak\<rparr>\<rparr>
          else \<lparr>auth = None\<rparr>
      | _ \<Rightarrow> \<lparr>auth = None\<rparr>)"

definition set_auth :: "API \<Rightarrow> string \<Rightarrow> string \<Rightarrow> API" where
  "set_auth self u k = self\<lparr>auth := Some \<lparr>username = u, apikey = k\<rparr>\<rparr>"

definition request_url :: "string \<Rightarrow> string" where
  "request_url endpoint = base_url @ endpoint"

subsection \<open>hash_password\<close>

text \<open>
  \<^verbatim>\<open>hash_password\<close> turns the password into bytes with \<^verbatim>\<open>six.b\<close> and returns the
  hexadecimal SHA-256 digest of these bytes. The password is a text string, modelled as
  the list of its code points. On Python 3 \<^verbatim>\<open>six.b(s)\<close> is \<^verbatim>\<open>s.encode("latin-1")\<close>:
  a code point below 256 becomes the byte of the same value, and any other code point
  makes the call raise \<^verbatim>\<open>UnicodeEncodeError\<close>. (On Python 2 \<^verbatim>\<open>six.b\<close> returns its
  argument, and \<^verbatim>\<open>hashlib\<close> refuses a text string with a character outside ASCII; the
  model follows Python 3.)
\<close>

type_synonym unicode = "nat list"
type_synonym bytes = "8 word list"

definition six_b :: "unicode \<Rightarrow> error + bytes" where
  "six_b s = (if list_all (\<lambda>c. c < 256) s then Inr (map word_of_nat s) else Inl UnicodeEncodeError)"

text \<open>
  \<^verbatim>\<open>hashlib.sha256\<close>, as FIPS 180-4 defines the function: the message is padded to a
  multiple of 64 bytes, read as big-endian 32-bit words, and each block of 16 words is
  compressed into the hash value by 64 rounds.
\<close>

type_synonym u32 = "32 word"
type_synonym hash = "u32 \<times> u32 \<times> u32 \<times> u32 \<times> u32 \<times> u32 \<times> u32 \<times> u32"

definition rotr :: "nat \<Rightarrow> u32 \<Rightarrow> u32" where
  "rotr n x = drop_bit n x OR push_bit (32 - n) x"

definition Ch :: "u32 \<Rightarrow> u32 \<Rightarrow> u32 \<Rightarrow> u32" where
  "Ch x y z = (x AND y) XOR (NOT x AND z)"

definition Maj :: "u32 \<Rightarrow> u32 \<Rightarrow> u32 \<Rightarrow> u32" where
  "Maj x y z = (x AND y) XOR (x AND z) XOR (y AND z)"

definition Sigma0 :: "u32 \<Rightarrow> u32" where
  "Sigma0 x = rotr 2 x XOR rotr 13 x XOR rotr 22 x"

definition Sigma1 :: "u32 \<Rightarrow> u32" where
  "Sigma1 x = rotr 6 x XOR rotr 11 x XOR rotr 25 x"

definition sigma0 :: "u32 \<Rightarrow> u32" where
  "sigma0 x = rotr 7 x XOR rotr 18 x XOR drop_bit 3 x"

definition sigma1 :: "u32 \<Rightarrow> u32" where
  "sigma1 x = rotr 17 x XOR rotr 19 x XOR drop_bit 10 x"

definition K256 :: "u32 list" where
  "K256 =
     [0x428a2f98, 0x71374491, 0xb5c0fbcf, 0xe9b5dba5, 0x3956c25b, 0x59f111f1, 0x923f82a4, 0xab1c5ed5] @
     [0xd807aa98, 0x12835b01, 0x243185be, 0x550c7dc3, 0x72be5d74, 0x80deb1fe, 0x9bdc06a7, 0xc19bf174] @
     [0xe49b69c1, 0xefbe4786, 0x0fc19dc6, 0x240ca1cc, 0x2de92c6f, 0x4a7484aa, 0x5cb0a9dc, 0x76f988da] @
     [0x983e5152, 0xa831c66d, 0xb00327c8, 0xbf597fc7, 0xc6e00bf3, 0xd5a79147, 0x06ca6351, 0x14292967] @
     [0x27b70a85, 0x2e1b2138, 0x4d2c6dfc, 0x53380d13, 0x650a7354, 0x766a0abb, 0x81c2c92e, 0x92722c85] @
     [0xa2bfe8a1, 0xa81a664b, 0xc24b8b70, 0xc76c51a3, 0xd192e819, 0xd6990624, 0xf40e3585, 0x106aa070] @
     [0x19a4c116, 0x1e376c08, 0x2748774c, 0x34b0bcb5, 0x391c0cb3, 0x4ed8aa4a, 0x5b9cca4f, 0x682e6ff3] @
     [0x748f82ee, 0x78a5636f, 0x84c87814, 0x8cc70208, 0x90befffa, 0xa4506ceb, 0xbef9a3f7, 0xc67178f2]"

definition H256 :: hash where
  "H256 = (0x6a09e667, 0xbb67ae85, 0x3c6ef372, 0xa54ff53a,
           0x510e527f, 0x9b05688c, 0x1f83d9ab, 0x5be0cd19)"

text \<open>
  One round. \<open>ws\<close> holds the sixteen most recent words of the message schedule, the
  oldest first: the round consumes \<open>ws ! 0\<close> and appends the next word of the schedule.
\<close>

fun sha_round :: "u32 \<Rightarrow> hash \<times> u32 list \<Rightarrow> hash \<times> u32 list" where
  "sha_round k ((a, b, c, d, e, f, g, h), ws) =
     (let t1 = h + Sigma1 e + Ch e f g + k + ws ! 0;
          t2 = Sigma0 a + Maj a b c
      in ((t1 + t2, a, b, c, d + t1, e, f, g),
          tl ws @ [sigma1 (ws ! 14) + ws ! 9 + sigma0 (ws ! 1) + ws ! 0]))"

fun add_hash :: "hash \<Rightarrow> hash \<Rightarrow> hash" where
  "add_hash (a, b, c, d, e, f, g, h) (a', b', c', d', e', f', g', h') =
     (a + a', b + b', c + c', d + d', e + e', f + f', g + g', h + h')"

definition compress :: "hash \<Rightarrow> u32 list \<Rightarrow> hash" where
  "compress H ws = add_hash H (fst (fold sha_round K256 (H, ws)))"

definition be64 :: "nat \<Rightarrow> bytes" where
  "be64 n = map (\<lambda>i. word_of_nat (n div 256 ^ i)) [7, 6, 5, 4, 3, 2, 1, 0]"

definition pad :: "bytes \<Rightarrow> bytes" where
  "pad m = m @ [0x80] @ replicate ((119 - length m mod 64) mod 64) 0 @ be64 (8 * length m)"

fun be_words :: "bytes \<Rightarrow> u32 list" where
  "be_words (a # b # c # d # r) =
     (push_bit 24 (ucast a) OR push_bit 16 (ucast b) OR push_bit 8 (ucast c) OR ucast d)
       # be_words r"
| "be_words _ = []"

definition sha256 :: "bytes \<Rightarrow> hash" where
  "sha256 m =
     (let ws = be_words (pad m)
      in fold (\<lambda>i H. compress H (take 16 (drop (16 * i) ws))) [0..<length ws div 16] H256)"

definition word_bytes :: "u32 \<Rightarrow> bytes" where
  "word_bytes w = [ucast (drop_bit 24 w), ucast (drop_bit 16 w), ucast (drop_bit 8 w), ucast w]"

fun digest :: "hash \<Rightarrow> bytes" where
  "digest (a, b, c, d, e, f, g, h) =
     word_bytes a @ word_bytes b @ word_bytes c @ word_bytes d @
     word_bytes e @ word_bytes f @ word_bytes g @ word_bytes h"

definition hexdigits :: string where
  "hexdigits = ''0123456789abcdef''"

definition hex_digit :: "nat \<Rightarrow> char" where
  "hex_digit n = hexdigits ! n"

definition hex_byte :: "8 word \<Rightarrow> string" where
  "hex_byte b = [hex_digit (unat (drop_bit 4 b)), hex_digit (unat (b AND 15))]"

definition hexdigest :: "hash \<Rightarrow> string" where
  "hexdigest H = concat (map hex_byte (digest H))"

definition hash_password :: "unicode \<Rightarrow> error + string" where
  "hash_password password =
     (case six_b password of
        Inl e \<Rightarrow> Inl e
      | Inr password \<Rightarrow> Inr (hexdigest (sha256 password)))"

subsection \<open>Formatting a value\<close>

text \<open>
  \<^verbatim>\<open>'ApiKey {username}:{apikey}'.format(...)\<close> renders each argument as Python's
  \<^verbatim>\<open>str\<close> does: a string is itself, every other value is its \<^verbatim>\<open>repr\<close>. The
  \<^verbatim>\<open>repr\<close> of a string is the string in quotes (double quotes when it has a single
  quote and no double quote, single quotes otherwise), with the quote and the backslash
  escaped, tab, newline and carriage return written with their letters, and every other
  character that is not printable written as a backslash, \<open>x\<close> and two hex digits.
\<close>

definition printable :: "char \<Rightarrow> bool" where
  "printable c =
     (let n = (of_char c :: nat) in (32 \<le> n \<and> n < 127) \<or> (161 \<le> n \<and> n \<noteq> 173))"

definition escape :: "char \<Rightarrow> char \<Rightarrow> string" where
  "escape quote c =
     (if c = quote \<or> c = CHR 0x5C then [CHR 0x5C, c]
      else if c = CHR 0x09 then [CHR 0x5C, CHR ''t'']
      else if c = CHR 0x0A then [CHR 0x5C, CHR ''n'']
      else if c = CHR 0x0D then [CHR 0x5C, CHR ''r'']
      else if printable c then [c]
      else [CHR 0x5C, CHR ''x'', hex_digit (of_char c div 16), hex_digit (of_char c mod 16)])"

definition repr_str :: "string \<Rightarrow> string" where
  "repr_str s =
     (let quote = (if CHR 0x27 \<in> set s \<and> CHR 0x22 \<notin> set s then CHR 0x22 else CHR 0x27)
      in quote # concat (map (escape quote) s) @ [quote])"

fun str_nat :: "nat \<Rightarrow> string" where
  "str_nat n = (if n < 10 then [hex_digit n] else str_nat (n div 10) @ [hex_digit (n mod 10)])"

definition str_int :: "int \<Rightarrow> string" where
  "str_int i = (if i < 0 then CHR ''-'' # str_nat (nat (- i)) else str_nat (nat i))"

text \<open>\<^verbatim>\<open>sep.join(xs)\<close>\<close>

fun join :: "string \<Rightarrow> string list \<Rightarrow> string" where
  "join sep [] = []"
| "join sep [x] = x"
| "join sep (x # y # ys) = x @ sep @ join sep (y # ys)"

fun repr :: "json \<Rightarrow> string" where
  "repr JNull = ''None''"
| "repr (JBool b) = (if b then ''True'' else ''False'')"
| "repr (JInt i) = str_int i"
| "repr (JFloat r) = r"
| "repr (JString s) = repr_str s"
| "repr (JArray xs) = ''['' @ join '', '' (map repr xs) @ '']''"
| "repr (JObject ms) =
     ''{'' @ join '', '' (map (\<lambda>(k, v). repr_str k @ '': '' @ repr v) ms) @ ''}''"

definition format_value :: "json \<Rightarrow> string" where
  "format_value v = (case v of JString s \<Rightarrow> s | _ \<Rightarrow> repr v)"

subsection \<open>Classifying a response\<close>

type_synonym transport = "request \<Rightarrow> string + response"
type_synonym decoder = "string \<Rightarrow> json option"

text \<open>\<^verbatim>\<open>response.json()\<close>\<close>

definition response_json :: "decoder \<Rightarrow> response \<Rightarrow> error + json" where
  "response_json loads response =
     (case loads (body_text response) of None \<Rightarrow> Inl ValueError | Some v \<Rightarrow> Inr v)"

text \<open>The message of \<^verbatim>\<open>OutdatedVersion\<close>.\<close>

definition outdated_message :: string where
  "outdated_message =
     ''The current version of Termius CLI is '' @
     ''incompatible with new Termius encryption algorithms.''"

text \<open>
  \<^verbatim>\<open>API.__check_response(response, success_statuses=None)\<close>. The \<^verbatim>\<open>assert\<close> is taken as
  executed (the interpreter runs without \<^verbatim>\<open>-O\<close>); its message is \<^verbatim>\<open>response.text\<close>.
  \<^verbatim>\<open>success_statuses or (200, 201, 202, 204)\<close> takes the default for \<^verbatim>\<open>None\<close> and for the
  empty tuple.
\<close>

definition check_response :: "response \<Rightarrow> int list option \<Rightarrow> error + unit" where
  "check_response response success_statuses =
     (if status_code response = 490
      then Inl (OutdatedVersion (Str outdated_message))
      else
        let success_statuses =
              (case success_statuses of
                 None \<Rightarrow> [200, 201, 202, 204]
               | Some [] \<Rightarrow> [200, 201, 202, 204]
               | Some ss \<Rightarrow> ss)
        in if status_code response \<in> set success_statuses
           then Inr ()
           else Inl (AssertionError (Str (body_text response))))"

text \<open>\<^verbatim>\<open>API.__check_login_response(response)\<close>\<close>

definition check_login_response :: "response \<Rightarrow> error + unit" where
  "check_login_response response =
     (if status_code response = 487
      then Inl (AuthyTokenIssue (Method_json response))
      else check_response response (Some [200]))"

subsection \<open>The operations\<close>

text \<open>
  What \<^verbatim>\<open>requests\<close> does with its \<^verbatim>\<open>auth=\<close> argument: a signer is called on the request
  before it is sent, \<^verbatim>\<open>None\<close> leaves the request as it is.
\<close>

definition attach :: "TermiusAuth option \<Rightarrow> request \<Rightarrow> request" where
  "attach a r = (case a of None \<Rightarrow> r | Some signer \<Rightarrow> call_auth signer r)"

text \<open>The subscript \<^verbatim>\<open>response_payload['token']\<close> on a decoded value.\<close>

definition getitem :: "json \<Rightarrow> string \<Rightarrow> error + json" where
  "getitem v key =
     (case v of
        JObject members \<Rightarrow>
          (case map_of members key of None \<Rightarrow> Inl (KeyError key) | Some x \<Rightarrow> Inr x)
      | _ \<Rightarrow> Inl TypeError)"

definition login_payload :: "string \<Rightarrow> string \<Rightarrow> string option \<Rightarrow> (string \<rightharpoonup> string)" where
  "login_payload password email authy_token =
     (let payload = [''password'' \<mapsto> password, ''email'' \<mapsto> email]
      in case authy_token of
           None \<Rightarrow> payload
         | Some t \<Rightarrow> payload(''authy_token'' \<mapsto> t))"

definition login_request :: "string \<Rightarrow> string \<Rightarrow> string option \<Rightarrow> request" where
  "login_request password email authy_token =
     \<lparr>http = POST, url = request_url ''v3.1/login/'', headers = Map.empty,
      form_data = Some (login_payload password email authy_token),
      json_data = None, timeout_s = None\<rparr>"

text \<open>
  \<^verbatim>\<open>API.login(email, password, authy_token=None)\<close>. The token may be of any JSON type:
  the code stores it as it is and returns the payload. The signer of the model keeps
  each credential as the text that the header's \<^verbatim>\<open>format\<close> gives for it, which for a
  string is the string itself and for the number 123 is \<open>123\<close>; a signer is read
  through its header only.
\<close>

definition login ::
  "transport \<Rightarrow> decoder \<Rightarrow> API \<Rightarrow> string \<Rightarrow> unicode \<Rightarrow> string option \<Rightarrow> (error + json) \<times> API"
where
  "login send loads self email password authy_token =
     (case hash_password password of
        Inl e \<Rightarrow> (Inl e, self)
      | Inr password \<Rightarrow>
     (case send (login_request password email authy_token) of
        Inl m \<Rightarrow> (Inl (RequestException m), self)
      | Inr response \<Rightarrow>
     (case check_login_response response of
        Inl e \<Rightarrow> (Inl e, self)
      | Inr _ \<Rightarrow>
     (case response_json loads response of
        Inl e \<Rightarrow> (Inl e, self)
      | Inr response_payload \<Rightarrow>
     (case getitem response_payload ''token'' of
        Inl e \<Rightarrow> (Inl e, self)
      | Inr token \<Rightarrow> (Inr response_payload, set_auth self email (format_value token)))))))"

text \<open>
  The four authorized calls. Each returns \<open>self\<close> with its result, as \<open>login\<close> does;
  none of them assigns \<^verbatim>\<open>self.auth\<close>. The request of each call is named, so that a
  property can speak of what is sent.
\<close>

definition post_request :: "API \<Rightarrow> string \<Rightarrow> json \<Rightarrow> request" where
  "post_request self endpoint data =
     attach (auth self)
       \<lparr>http = POST, url = request_url endpoint, headers = Map.empty,
        form_data = None, json_data = Some data, timeout_s = Some timeout\<rparr>"

definition post ::
  "transport \<Rightarrow> decoder \<Rightarrow> API \<Rightarrow> string \<Rightarrow> json \<Rightarrow> (error + json) \<times> API" where
  "post send loads self endpoint data =
     (case send (post_request self endpoint data) of
        Inl m \<Rightarrow> (Inl (RequestException m), self)
      | Inr response \<Rightarrow>
     (case check_response response (Some [201]) of
        Inl e \<Rightarrow> (Inl e, self)
      | Inr _ \<Rightarrow> (response_json loads response, self)))"

definition get_request :: "API \<Rightarrow> string \<Rightarrow> request" where
  "get_request self endpoint =
     attach (auth self)
       \<lparr>http = GET, url = request_url endpoint, headers = Map.empty,
        form_data = None, json_data = None, timeout_s = Some timeout\<rparr>"

definition get :: "transport \<Rightarrow> decoder \<Rightarrow> API \<Rightarrow> string \<Rightarrow> (error + json) \<times> API" where
  "get send loads self endpoint =
     (case send (get_request self endpoint) of
        Inl m \<Rightarrow> (Inl (RequestException m), self)
      | Inr response \<Rightarrow>
     (case check_response response (Some [200]) of
        Inl e \<Rightarrow> (Inl e, self)
      | Inr _ \<Rightarrow> (response_json loads response, self)))"

definition delete_request :: "API \<Rightarrow> string \<Rightarrow> request" where
  "delete_request self endpoint =
     attach (auth self)
       \<lparr>http = DELETE, url = request_url endpoint, headers = Map.empty,
        form_data = None, json_data = None, timeout_s = None\<rparr>"

definition delete :: "transport \<Rightarrow> decoder \<Rightarrow> API \<Rightarrow> string \<Rightarrow> (error + json) \<times> API" where
  "delete send loads self endpoint =
     (case send (delete_request self endpoint) of
        Inl m \<Rightarrow> (Inl (RequestException m), self)
      | Inr response \<Rightarrow>
     (case check_response response (Some [200, 204]) of
        Inl e \<Rightarrow> (Inl e, self)
      | Inr _ \<Rightarrow> (response_json loads response, self)))"

definition put_request :: "API \<Rightarrow> string \<Rightarrow> json \<Rightarrow> request" where
  "put_request self endpoint data =
     attach (auth self)
       \<lparr>http = PUT, url = request_url endpoint, headers = Map.empty,
        form_data = None, json_data = Some data, timeout_s = Some timeout\<rparr>"

definition put ::
  "transport \<Rightarrow> decoder \<Rightarrow> API \<Rightarrow> string \<Rightarrow> json \<Rightarrow> (error + json) \<times> API" where
  "put send loads self endpoint data =
     (case send (put_request self endpoint data) of
        Inl m \<Rightarrow> (Inl (RequestException m), self)
      | Inr response \<Rightarrow>
     (case check_response response (Some [200, 202]) of
        Inl e \<Rightarrow> (Inl e, self)
      | Inr _ \<Rightarrow> (response_json loads response, self)))"

subsection \<open>Inputs for the examples\<close>

text \<open>
  A transport that answers every request with the same response, a client without
  credentials, and the responses of the examples. \<open>sample_loads\<close> stands in for the JSON
  decoder on the body texts of the examples: it decodes the three JSON documents among
  them and rejects the other texts (the empty text, an HTML page and two plain words,
  which no JSON decoder accepts).
\<close>

definition reply :: "response \<Rightarrow> transport" where
  "reply r rq = Inr r"

definition anonymous :: API where
  "anonymous = API_init None None"

definition sample_loads :: decoder where
  \<open>sample_loads s =
     (if s = ''{"token": "abc123"}'' then Some (JObject [(''token'', JString ''abc123'')])
      else if s = ''{"token": 123}'' then Some (JObject [(''token'', JInt 123)])
      else if s = ''{"detail": "authy"}'' then Some (JObject [(''detail'', JString ''authy'')])
      else None)\<close>

definition token_response :: response where
  \<open>token_response = \<lparr>status_code = 200, body_text = ''{"token": "abc123"}''\<rparr>\<close>

definition number_token_response :: response where
  \<open>number_token_response = \<lparr>status_code = 200, body_text = ''{"token": 123}''\<rparr>\<close>

definition no_token_response :: response where
  \<open>no_token_response = \<lparr>status_code = 200, body_text = ''{"detail": "authy"}''\<rparr>\<close>

definition outdated_response :: response where
  "outdated_response = \<lparr>status_code = 490, body_text = ''upgrade''\<rparr>"

definition authy_response :: response where
  \<open>authy_response = \<lparr>status_code = 487, body_text = ''{"detail": "authy"}''\<rparr>\<close>

definition no_content :: response where
  "no_content = \<lparr>status_code = 204, body_text = []\<rparr>"

definition html_response :: response where
  "html_response = \<lparr>status_code = 200, body_text = ''<html>''\<rparr>"

definition gone_404 :: response where
  "gone_404 = \<lparr>status_code = 404, body_text = ''gone''\<rparr>"

definition gone_500 :: response where
  "gone_500 = \<lparr>status_code = 500, body_text = ''gone''\<rparr>"

section \<open>Properties\<close>

subsection \<open>How a response is classified\<close>

lemma check_490:
  "status_code r = 490 \<Longrightarrow> check_response r ss = Inl (OutdatedVersion (Str outdated_message))"
  by (simp add: check_response_def)

lemma check_reject:
  "status_code r \<noteq> 490 \<Longrightarrow> ss \<noteq> [] \<Longrightarrow> status_code r \<notin> set ss \<Longrightarrow>
   check_response r (Some ss) = Inl (AssertionError (Str (body_text r)))"
  by (cases ss) (simp_all add: check_response_def)

lemma check_accept:
  "status_code r \<noteq> 490 \<Longrightarrow> status_code r \<in> set ss \<Longrightarrow> check_response r (Some ss) = Inr ()"
  by (cases ss) (simp_all add: check_response_def)

lemma login_checked:
  "hash_password pw = Inr h \<Longrightarrow> send (login_request h email t) = Inr r \<Longrightarrow>
   check_login_response r = Inl e \<Longrightarrow>
   login send loads self email pw t = (Inl e, self)"
  by (simp add: login_def)

lemma check_login_490:
  "status_code r = 490 \<Longrightarrow>
   check_login_response r = Inl (OutdatedVersion (Str outdated_message))"
  by (simp add: check_login_response_def check_response_def)

lemma check_login_reject:
  "status_code r \<noteq> 490 \<Longrightarrow> status_code r \<noteq> 487 \<Longrightarrow> status_code r \<noteq> 200 \<Longrightarrow>
   check_login_response r = Inl (AssertionError (Str (body_text r)))"
  by (simp add: check_login_response_def check_response_def)

lemma login_200:
  "hash_password pw = Inr h \<Longrightarrow> send (login_request h email t) = Inr r \<Longrightarrow>
   status_code r = 200 \<Longrightarrow> loads (body_text r) = Some j \<Longrightarrow>
   getitem j ''token'' = Inr token \<Longrightarrow>
   login send loads self email pw t = (Inr j, set_auth self email (format_value token))"
  by (simp add: login_def check_login_response_def check_response_def response_json_def)

lemma format_value_string: "format_value (JString s) = s"
  by (simp add: format_value_def)

lemma format_value_123: "format_value (JInt 123) = ''123''"
  by (simp add: format_value_def str_int_def hex_digit_def hexdigits_def)

lemma format_value_examples:
  "format_value JNull = ''None''"
  "format_value (JBool True) = ''True''"
  "format_value (JInt (- 5)) = ''-5''"
  "format_value (JFloat ''1.5'') = ''1.5''"
  "format_value (JArray [JInt 1, JString ''a'', JNull]) = ''[1, 'a', None]''"
  \<open>format_value (JObject [(''a'', JInt 1), (''b'', JArray [JBool True, JString ''x'y''])]) =
     ''{'a': 1, 'b': [True, "x'y"]}''\<close>
  by (simp_all add: format_value_def str_int_def hex_digit_def hexdigits_def repr_str_def
      escape_def printable_def Let_def)

lemma repr_str_examples:
  "repr_str [CHR ''a'', CHR 0x09, CHR 0x5C, CHR 0x7F, CHR 0xA0, CHR 0xE9] =
     [CHR 0x27, CHR ''a'', CHR 0x5C, CHR ''t'', CHR 0x5C, CHR 0x5C,
      CHR 0x5C, CHR ''x'', CHR ''7'', CHR ''f'', CHR 0x5C, CHR ''x'', CHR ''a'', CHR ''0'',
      CHR 0xE9, CHR 0x27]"
  "repr_str [CHR ''i'', CHR ''t'', CHR 0x27, CHR ''s''] =
     [CHR 0x22, CHR ''i'', CHR ''t'', CHR 0x27, CHR ''s'', CHR 0x22]"
  "repr_str [CHR ''a'', CHR 0x27, CHR ''b'', CHR 0x22, CHR ''c''] =
     [CHR 0x27, CHR ''a'', CHR 0x5C, CHR 0x27, CHR ''b'', CHR 0x22, CHR ''c'', CHR 0x27]"
  "format_value (JInt 0) = ''0''"
  "format_value (JInt 1234567890) = ''1234567890''"
  by (simp_all add: format_value_def str_int_def hex_digit_def hexdigits_def repr_str_def
      escape_def printable_def Let_def)

lemma hash_pw: "hash_password [112, 119] = Inr (hexdigest (sha256 [112, 119]))"
  by (simp add: hash_password_def six_b_def)

lemma sample_loads_token:
  "sample_loads (body_text token_response) = Some (JObject [(''token'', JString ''abc123'')])"
  by (simp add: sample_loads_def token_response_def)

lemma getitem_token:
  "getitem (JObject [(''token'', JString ''abc123'')]) ''token'' = Inr (JString ''abc123'')"
  by (simp add: getitem_def)

text \<open>
  C1. The claim: for every response whose status is not 490 (for login, not 487 either)
  the call returns the decoded body exactly when the status is in the call's set, and
  raises the failure of the assertion otherwise. It fails where the status is in the set
  and the call cannot read the body: \<open>get\<close> on status 200 with an HTML body raises the
  decoder's \<open>ValueError\<close>, and \<open>login\<close> on status 200 with a JSON object that has no
  \<open>token\<close> raises \<open>KeyError\<close>.
\<close>

theorem C1_counterexample:
  "status_code html_response = 200
   \<and> fst (get (reply html_response) sample_loads anonymous ''hosts/'') = Inl ValueError
   \<and> status_code no_token_response = 200
   \<and> fst (login (reply no_token_response) sample_loads anonymous ''a@b.com'' [112, 119] None)
       = Inl (KeyError ''token'')"
  by (simp add: get_def login_def reply_def check_response_def check_login_response_def
      response_json_def sample_loads_def html_response_def no_token_response_def
      hash_password_def six_b_def getitem_def)

text \<open>
  C1, as amended. For every response whose status is not 490 (for login, not 487 either):
  if the status is in the call's set (login 200, post 201, get 200, delete 200 and 204,
  put 200 and 202) and the body decodes to \<open>j\<close> (for login, to an object that has a
  \<open>token\<close>, of any type), the call returns \<open>j\<close>; if the status is not in the set, the
  call raises \<open>AssertionError\<close>, whatever the body is. In particular \<open>post\<close> on status
  200 raises.
\<close>

theorem C1_classification:
  assumes "status_code r \<noteq> 490"
  shows "(hash_password pw = Inr h \<longrightarrow> send (login_request h email t) = Inr r \<longrightarrow>
          status_code r \<noteq> 487 \<longrightarrow>
            (status_code r = 200 \<longrightarrow> loads (body_text r) = Some j \<longrightarrow>
               getitem j ''token'' = Inr token \<longrightarrow>
               fst (login send loads self email pw t) = Inr j)
          \<and> (status_code r \<noteq> 200 \<longrightarrow>
               fst (login send loads self email pw t) = Inl (AssertionError (Str (body_text r)))))
    \<and> (send (post_request self ep d) = Inr r \<longrightarrow>
            (status_code r = 201 \<longrightarrow> loads (body_text r) = Some j \<longrightarrow>
               fst (post send loads self ep d) = Inr j)
          \<and> (status_code r \<noteq> 201 \<longrightarrow>
               fst (post send loads self ep d) = Inl (AssertionError (Str (body_text r)))))
    \<and> (send (get_request self ep) = Inr r \<longrightarrow>
            (status_code r = 200 \<longrightarrow> loads (body_text r) = Some j \<longrightarrow>
               fst (get send loads self ep) = Inr j)
          \<and> (status_code r \<noteq> 200 \<longrightarrow>
               fst (get send loads self ep) = Inl (AssertionError (Str (body_text r)))))
    \<and> (send (delete_request self ep) = Inr r \<longrightarrow>
            (status_code r \<in> {200, 204} \<longrightarrow> loads (body_text r) = Some j \<longrightarrow>
               fst (delete send loads self ep) = Inr j)
          \<and> (status_code r \<notin> {200, 204} \<longrightarrow>
               fst (delete send loads self ep) = Inl (AssertionError (Str (body_text r)))))
    \<and> (send (put_request self ep d) = Inr r \<longrightarrow>
            (status_code r \<in> {200, 202} \<longrightarrow> loads (body_text r) = Some j \<longrightarrow>
               fst (put send loads self ep d) = Inr j)
          \<and> (status_code r \<notin> {200, 202} \<longrightarrow>
               fst (put send loads self ep d) = Inl (AssertionError (Str (body_text r)))))
    \<and> (send (post_request self ep d) = Inr r \<longrightarrow> status_code r = 200 \<longrightarrow>
            fst (post send loads self ep d) = Inl (AssertionError (Str (body_text r))))"
proof -
  have a: "\<And>ss. status_code r \<in> set ss \<Longrightarrow> check_response r (Some ss) = Inr ()"
    using assms by (simp add: check_accept)
  have b: "\<And>ss. ss \<noteq> [] \<Longrightarrow> status_code r \<notin> set ss \<Longrightarrow>
      check_response r (Some ss) = Inl (AssertionError (Str (body_text r)))"
    using assms by (simp add: check_reject)
  have l: "hash_password pw = Inr h \<longrightarrow> send (login_request h email t) = Inr r \<longrightarrow>
          status_code r \<noteq> 487 \<longrightarrow>
            (status_code r = 200 \<longrightarrow> loads (body_text r) = Some j \<longrightarrow>
               getitem j ''token'' = Inr token \<longrightarrow>
               fst (login send loads self email pw t) = Inr j)
          \<and> (status_code r \<noteq> 200 \<longrightarrow>
               fst (login send loads self email pw t) = Inl (AssertionError (Str (body_text r))))"
    using assms by (simp add: login_200 login_checked check_login_reject)
  have p: "send (post_request self ep d) = Inr r \<longrightarrow>
            (status_code r = 201 \<longrightarrow> loads (body_text r) = Some j \<longrightarrow>
               fst (post send loads self ep d) = Inr j)
          \<and> (status_code r \<noteq> 201 \<longrightarrow>
               fst (post send loads self ep d) = Inl (AssertionError (Str (body_text r))))"
    using a [of "[201]"] b [of "[201]"] by (simp add: post_def response_json_def)
  have g: "send (get_request self ep) = Inr r \<longrightarrow>
            (status_code r = 200 \<longrightarrow> loads (body_text r) = Some j \<longrightarrow>
               fst (get send loads self ep) = Inr j)
          \<and> (status_code r \<noteq> 200 \<longrightarrow>
               fst (get send loads self ep) = Inl (AssertionError (Str (body_text r))))"
    using a [of "[200]"] b [of "[200]"] by (simp add: get_def response_json_def)
  have dl: "send (delete_request self ep) = Inr r \<longrightarrow>
            (status_code r \<in> {200, 204} \<longrightarrow> loads (body_text r) = Some j \<longrightarrow>
               fst (delete send loads self ep) = Inr j)
          \<and> (status_code r \<notin> {200, 204} \<longrightarrow>
               fst (delete send loads self ep) = Inl (AssertionError (Str (body_text r))))"
    using a [of "[200, 204]"] b [of "[200, 204]"] by (auto simp: delete_def response_json_def)
  have pt: "send (put_request self ep d) = Inr r \<longrightarrow>
            (status_code r \<in> {200, 202} \<longrightarrow> loads (body_text r) = Some j \<longrightarrow>
               fst (put send loads self ep d) = Inr j)
          \<and> (status_code r \<notin> {200, 202} \<longrightarrow>
               fst (put send loads self ep d) = Inl (AssertionError (Str (body_text r))))"
    using a [of "[200, 202]"] b [of "[200, 202]"] by (auto simp: put_def response_json_def)
  have p200: "send (post_request self ep d) = Inr r \<longrightarrow> status_code r = 200 \<longrightarrow>
            fst (post send loads self ep d) = Inl (AssertionError (Str (body_text r)))"
    using p by simp
  from l p g dl pt p200 show ?thesis by blast
qed

theorem C1_classification_witness:
  "status_code token_response \<noteq> 490 \<and> status_code token_response \<noteq> 487
   \<and> status_code token_response = 200
   \<and> hash_password [112, 119] = Inr (hexdigest (sha256 [112, 119]))
   \<and> reply token_response (login_request (hexdigest (sha256 [112, 119])) ''a@b.com'' None)
       = Inr token_response
   \<and> sample_loads (body_text token_response) = Some (JObject [(''token'', JString ''abc123'')])
   \<and> getitem (JObject [(''token'', JString ''abc123'')]) ''token'' = Inr (JString ''abc123'')
   \<and> fst (login (reply token_response) sample_loads anonymous ''a@b.com'' [112, 119] None)
       = Inr (JObject [(''token'', JString ''abc123'')])
   \<and> fst (get (reply token_response) sample_loads anonymous ''hosts/'')
       = Inr (JObject [(''token'', JString ''abc123'')])
   \<and> fst (delete (reply token_response) sample_loads anonymous ''hosts/'')
       = Inr (JObject [(''token'', JString ''abc123'')])
   \<and> fst (put (reply token_response) sample_loads anonymous ''hosts/'' JNull)
       = Inr (JObject [(''token'', JString ''abc123'')])
   \<and> fst (post (reply token_response) sample_loads anonymous ''hosts/'' JNull)
       = Inl (AssertionError (Str (body_text token_response)))"
proof -
  have s: "status_code token_response \<noteq> 490"
    by (simp add: token_response_def)
  have s200: "status_code token_response = 200"
    by (simp add: token_response_def)
  show ?thesis
    using s200 hash_pw sample_loads_token getitem_token
      C1_classification [OF s, where send = "reply token_response" and loads = sample_loads
        and self = anonymous and pw = "[112, 119]" and h = "hexdigest (sha256 [112, 119])"
        and email = "''a@b.com''" and t = None and ep = "''hosts/''" and d = JNull
        and j = "JObject [(''token'', JString ''abc123'')]" and token = "JString ''abc123''"]
    by (simp add: reply_def)
qed

text \<open>
  C2. On a response with status 490 every call, login included, raises
  \<open>OutdatedVersion\<close>. \<open>check_response\<close> looks at 490 before it looks at the tuple of
  accepted statuses, so the result is the same for every tuple, also one that lists 490.
\<close>

theorem C2_outdated:
  assumes "status_code r = 490"
  shows "check_response r ss = Inl (OutdatedVersion (Str outdated_message))
    \<and> (hash_password pw = Inr h \<longrightarrow> send (login_request h email t) = Inr r \<longrightarrow>
         fst (login send loads self email pw t) = Inl (OutdatedVersion (Str outdated_message)))
    \<and> (send (get_request self ep) = Inr r \<longrightarrow>
         fst (get send loads self ep) = Inl (OutdatedVersion (Str outdated_message)))
    \<and> (send (post_request self ep d) = Inr r \<longrightarrow>
         fst (post send loads self ep d) = Inl (OutdatedVersion (Str outdated_message)))
    \<and> (send (put_request self ep d) = Inr r \<longrightarrow>
         fst (put send loads self ep d) = Inl (OutdatedVersion (Str outdated_message)))
    \<and> (send (delete_request self ep) = Inr r \<longrightarrow>
         fst (delete send loads self ep) = Inl (OutdatedVersion (Str outdated_message)))"
  using assms
  by (simp add: check_490 login_checked check_login_490 get_def post_def put_def delete_def)

theorem C2_outdated_witness:
  "status_code outdated_response = 490
   \<and> hash_password [112, 119] = Inr (hexdigest (sha256 [112, 119]))
   \<and> reply outdated_response (login_request (hexdigest (sha256 [112, 119])) ''a@b.com'' None)
       = Inr outdated_response
   \<and> reply outdated_response (get_request anonymous ''hosts/'') = Inr outdated_response
   \<and> reply outdated_response (post_request anonymous ''hosts/'' JNull) = Inr outdated_response
   \<and> reply outdated_response (put_request anonymous ''hosts/'' JNull) = Inr outdated_response
   \<and> reply outdated_response (delete_request anonymous ''hosts/'') = Inr outdated_response
   \<and> check_response outdated_response (Some [490]) = Inl (OutdatedVersion (Str outdated_message))
   \<and> fst (login (reply outdated_response) sample_loads anonymous ''a@b.com'' [112, 119] None)
       = Inl (OutdatedVersion (Str outdated_message))
   \<and> fst (get (reply outdated_response) sample_loads anonymous ''hosts/'')
       = Inl (OutdatedVersion (Str outdated_message))
   \<and> fst (post (reply outdated_response) sample_loads anonymous ''hosts/'' JNull)
       = Inl (OutdatedVersion (Str outdated_message))
   \<and> fst (put (reply outdated_response) sample_loads anonymous ''hosts/'' JNull)
       = Inl (OutdatedVersion (Str outdated_message))
   \<and> fst (delete (reply outdated_response) sample_loads anonymous ''hosts/'')
       = Inl (OutdatedVersion (Str outdated_message))"
proof -
  have s: "status_code outdated_response = 490"
    by (simp add: outdated_response_def)
  show ?thesis
    using s hash_pw
      C2_outdated [OF s, where send = "reply outdated_response" and loads = sample_loads
        and self = anonymous and pw = "[112, 119]" and h = "hexdigest (sha256 [112, 119])"
        and email = "''a@b.com''" and t = None and ep = "''hosts/''" and d = JNull
        and ss = "Some [490]"]
    by (simp add: reply_def)
qed

text \<open>
  C3. A login whose response has status 487 raises \<open>AuthyTokenIssue\<close> and leaves the
  client's signer as it was. What the exception is constructed with is
  \<^verbatim>\<open>response.json\<close>, the bound method, which is not called: the exception carries
  neither the raw body text nor the decoded body.
\<close>

theorem C3_login_487:
  assumes "hash_password password = Inr h"
    and "send (login_request h email authy_token) = Inr r"
    and "status_code r = 487"
  shows "login send loads self email password authy_token =
           (Inl (AuthyTokenIssue (Method_json r)), self)
    \<and> AuthyTokenIssue (Method_json r) \<noteq> AuthyTokenIssue (Str (body_text r))"
  using assms by (simp add: login_checked check_login_response_def)

theorem C3_login_487_witness:
  "hash_password [112, 119] = Inr (hexdigest (sha256 [112, 119]))
   \<and> reply authy_response (login_request (hexdigest (sha256 [112, 119])) ''a@b.com'' None)
       = Inr authy_response
   \<and> status_code authy_response = 487
   \<and> login (reply authy_response) sample_loads anonymous ''a@b.com'' [112, 119] None =
       (Inl (AuthyTokenIssue (Method_json authy_response)), anonymous)
   \<and> AuthyTokenIssue (Method_json authy_response) \<noteq>
       AuthyTokenIssue (Str (body_text authy_response))"
proof -
  have s: "status_code authy_response = 487"
    by (simp add: authy_response_def)
  have q: "reply authy_response (login_request (hexdigest (sha256 [112, 119])) ''a@b.com'' None)
       = Inr authy_response"
    by (simp add: reply_def)
  show ?thesis
    using s q hash_pw
      C3_login_487 [where send = "reply authy_response" and loads = sample_loads
        and self = anonymous, OF hash_pw q s]
    by simp
qed

subsection \<open>Login and the signer\<close>

lemma attach_set_auth:
  "headers (attach (auth (set_auth self u k)) rq) ''Authorization'' =
     Some (''ApiKey '' @ u @ '':'' @ k)"
  by (simp add: attach_def set_auth_def call_auth_def header_name_def auth_header_def)

text \<open>
  C4. A login that gets status 200 and a body that decodes to an object with a
  \<open>token\<close> has sent the form payload \<open>password\<close> (the digest of the password) and
  \<open>email\<close>, with \<open>authy_token\<close> exactly when the third argument is given; it returns
  the decoded body and sets the signer to the email and the token, so that the next
  get, post, put or delete request carries \<open>Authorization: ApiKey email:token\<close>, the
  token written as \<^verbatim>\<open>format\<close> writes it: a string token as it is.
\<close>

theorem C4_login_success:
  assumes "hash_password password = Inr h"
    and "send (login_request h email authy_token) = Inr r"
    and "status_code r = 200"
    and "loads (body_text r) = Some j"
    and "getitem j ''token'' = Inr token"
  shows "form_data (login_request h email authy_token) =
           Some (case authy_token of
                   None \<Rightarrow> [''password'' \<mapsto> h, ''email'' \<mapsto> email]
                 | Some c \<Rightarrow> [''password'' \<mapsto> h, ''email'' \<mapsto> email, ''authy_token'' \<mapsto> c])
    \<and> (''authy_token'' \<in> dom (login_payload h email authy_token)) = (authy_token \<noteq> None)
    \<and> login send loads self email password authy_token =
          (Inr j, self\<lparr>auth := Some \<lparr>username = email, apikey = format_value token\<rparr>\<rparr>)
    \<and> headers (get_request (snd (login send loads self email password authy_token)) ep)
          ''Authorization'' = Some (''ApiKey '' @ email @ '':'' @ format_value token)
    \<and> headers (post_request (snd (login send loads self email password authy_token)) ep d)
          ''Authorization'' = Some (''ApiKey '' @ email @ '':'' @ format_value token)
    \<and> headers (put_request (snd (login send loads self email password authy_token)) ep d)
          ''Authorization'' = Some (''ApiKey '' @ email @ '':'' @ format_value token)
    \<and> headers (delete_request (snd (login send loads self email password authy_token)) ep)
          ''Authorization'' = Some (''ApiKey '' @ email @ '':'' @ format_value token)
    \<and> format_value (JString k) = k"
proof -
  have ok: "login send loads self email password authy_token =
      (Inr j, set_auth self email (format_value token))"
    using assms by (rule login_200)
  have payload: "form_data (login_request h email authy_token) =
           Some (case authy_token of
                   None \<Rightarrow> [''password'' \<mapsto> h, ''email'' \<mapsto> email]
                 | Some c \<Rightarrow> [''password'' \<mapsto> h, ''email'' \<mapsto> email, ''authy_token'' \<mapsto> c])"
    by (simp add: login_request_def login_payload_def split: option.splits)
  have only: "(''authy_token'' \<in> dom (login_payload h email authy_token)) = (authy_token \<noteq> None)"
    by (auto simp: login_payload_def Let_def split: option.splits if_splits)
  show ?thesis
    using payload only
    by (simp add: ok attach_set_auth get_request_def post_request_def put_request_def
        delete_request_def format_value_string)
       (simp add: set_auth_def)
qed

theorem C4_login_success_witness:
  "hash_password [112, 119] = Inr (hexdigest (sha256 [112, 119]))
   \<and> reply token_response (login_request (hexdigest (sha256 [112, 119])) ''a@b.com'' None) =
       Inr token_response
   \<and> status_code token_response = 200
   \<and> sample_loads (body_text token_response) = Some (JObject [(''token'', JString ''abc123'')])
   \<and> getitem (JObject [(''token'', JString ''abc123'')]) ''token'' = Inr (JString ''abc123'')
   \<and> login (reply token_response) sample_loads anonymous ''a@b.com'' [112, 119] None =
       (Inr (JObject [(''token'', JString ''abc123'')]),
        \<lparr>auth = Some \<lparr>username = ''a@b.com'', apikey = ''abc123''\<rparr>\<rparr>)
   \<and> headers (get_request (snd (login (reply token_response) sample_loads anonymous
         ''a@b.com'' [112, 119] None)) ''hosts/'') ''Authorization'' =
       Some ''ApiKey a@b.com:abc123''
   \<and> status_code number_token_response = 200
   \<and> sample_loads (body_text number_token_response) = Some (JObject [(''token'', JInt 123)])
   \<and> getitem (JObject [(''token'', JInt 123)]) ''token'' = Inr (JInt 123)
   \<and> login (reply number_token_response) sample_loads anonymous ''a@b.com'' [112, 119] None =
       (Inr (JObject [(''token'', JInt 123)]),
        \<lparr>auth = Some \<lparr>username = ''a@b.com'', apikey = ''123''\<rparr>\<rparr>)
   \<and> headers (get_request (snd (login (reply number_token_response) sample_loads anonymous
         ''a@b.com'' [112, 119] None)) ''hosts/'') ''Authorization'' =
       Some ''ApiKey a@b.com:123''"
proof -
  have h2: "reply token_response (login_request (hexdigest (sha256 [112, 119])) ''a@b.com'' None)
      = Inr token_response"
    by (simp add: reply_def)
  have h3: "status_code token_response = 200"
    by (simp add: token_response_def)
  have s: "login (reply token_response) sample_loads anonymous ''a@b.com'' [112, 119] None =
       (Inr (JObject [(''token'', JString ''abc123'')]),
        anonymous\<lparr>auth := Some \<lparr>username = ''a@b.com'',
          apikey = format_value (JString ''abc123'')\<rparr>\<rparr>)"
    and sh: "headers (get_request (snd (login (reply token_response) sample_loads anonymous
         ''a@b.com'' [112, 119] None)) ''hosts/'') ''Authorization'' =
       Some (''ApiKey '' @ ''a@b.com'' @ '':'' @ format_value (JString ''abc123''))"
    using C4_login_success [where send = "reply token_response" and loads = sample_loads
        and r = token_response and self = anonymous and ep = "''hosts/''",
        OF hash_pw h2 h3 sample_loads_token getitem_token]
    by blast+
  have n2: "reply number_token_response
      (login_request (hexdigest (sha256 [112, 119])) ''a@b.com'' None) = Inr number_token_response"
    by (simp add: reply_def)
  have n3: "status_code number_token_response = 200"
    by (simp add: number_token_response_def)
  have n4: "sample_loads (body_text number_token_response) =
      Some (JObject [(''token'', JInt 123)])"
    by (simp add: sample_loads_def number_token_response_def)
  have n5: "getitem (JObject [(''token'', JInt 123)]) ''token'' = Inr (JInt 123)"
    by (simp add: getitem_def)
  have n: "login (reply number_token_response) sample_loads anonymous ''a@b.com'' [112, 119] None =
       (Inr (JObject [(''token'', JInt 123)]),
        anonymous\<lparr>auth := Some \<lparr>username = ''a@b.com'', apikey = format_value (JInt 123)\<rparr>\<rparr>)"
    and nh: "headers (get_request (snd (login (reply number_token_response) sample_loads anonymous
         ''a@b.com'' [112, 119] None)) ''hosts/'') ''Authorization'' =
       Some (''ApiKey '' @ ''a@b.com'' @ '':'' @ format_value (JInt 123))"
    using C4_login_success [where send = "reply number_token_response" and loads = sample_loads
        and r = number_token_response and self = anonymous and ep = "''hosts/''",
        OF hash_pw n2 n3 n4 n5]
    by blast+
  show ?thesis
    using s sh n nh hash_pw h2 h3 sample_loads_token getitem_token n3 n4 n5
    by (simp add: format_value_string format_value_123 anonymous_def API_init_def)
qed

text \<open>
  C5. The claim: a delete whose response has status 204 and an empty body succeeds and
  gives an empty payload. The code accepts 204 and then decodes the body like every
  other call; no JSON decoder accepts the empty text, so the call raises \<open>ValueError\<close>.
\<close>

theorem C5_delete_no_content:
  assumes "send (delete_request self endpoint) = Inr r"
    and "status_code r = 204"
    and "body_text r = []"
    and "loads [] = None"
  shows "delete send loads self endpoint = (Inl ValueError, self)"
  using assms by (simp add: delete_def check_accept response_json_def)

theorem C5_delete_no_content_witness:
  "reply no_content (delete_request anonymous ''hosts/7/'') = Inr no_content
   \<and> status_code no_content = 204 \<and> body_text no_content = [] \<and> sample_loads [] = None
   \<and> delete (reply no_content) sample_loads anonymous ''hosts/7/'' = (Inl ValueError, anonymous)"
proof -
  have h1: "reply no_content (delete_request anonymous ''hosts/7/'') = Inr no_content"
    by (simp add: reply_def)
  have h2: "status_code no_content = 204" and h3: "body_text no_content = []"
    by (simp_all add: no_content_def)
  have h4: "sample_loads [] = None"
    by (simp add: sample_loads_def)
  show ?thesis
    using h1 h2 h3 h4
      C5_delete_no_content [where send = "reply no_content" and loads = sample_loads,
        OF h1 h2 h3 h4]
    by simp
qed

subsection \<open>The signer\<close>

lemma call_auth_header:
  "headers (call_auth a r) ''Authorization'' = Some (''ApiKey '' @ username a @ '':'' @ apikey a)"
  by (simp add: call_auth_def header_name_def auth_header_def)

lemma call_auth_many:
  "map (\<lambda>q. headers q ''Authorization'') (map (call_auth a) rs) =
     replicate (length rs) (Some (''ApiKey '' @ username a @ '':'' @ apikey a))"
  by (induction rs) (simp_all add: call_auth_header)

text \<open>
  C6. Applied to a request, a signer with the fields \<open>u\<close> and \<open>s\<close> sets the header
  \<open>Authorization\<close> to \<open>ApiKey u:s\<close>: the header dictionary has this one entry under the
  name, every other header and every other field of the request is as before. The value
  is computed from the signer's fields at each application, so a signer whose field has
  been replaced gives the new value, and one signer signs any number of requests.
\<close>

theorem C6_signer:
  "headers (call_auth a r) k =
     (if k = ''Authorization'' then Some (''ApiKey '' @ username a @ '':'' @ apikey a)
      else headers r k)
   \<and> {h \<in> dom (headers (call_auth a r)). h = ''Authorization''} = {''Authorization''}
   \<and> http (call_auth a r) = http r \<and> url (call_auth a r) = url r
   \<and> form_data (call_auth a r) = form_data r \<and> json_data (call_auth a r) = json_data r
   \<and> timeout_s (call_auth a r) = timeout_s r
   \<and> auth_header \<lparr>username = u, apikey = s\<rparr> = ''ApiKey '' @ u @ '':'' @ s
   \<and> auth_header (a\<lparr>apikey := s'\<rparr>) = ''ApiKey '' @ username a @ '':'' @ s'
   \<and> auth_header (a\<lparr>username := u'\<rparr>) = ''ApiKey '' @ u' @ '':'' @ apikey a
   \<and> map (\<lambda>q. headers q ''Authorization'') (map (call_auth a) rs) =
       replicate (length rs) (Some (''ApiKey '' @ username a @ '':'' @ apikey a))"
proof -
  have "{h \<in> dom (headers (call_auth a r)). h = ''Authorization''} = {''Authorization''}"
    by (auto simp: call_auth_def header_name_def)
  moreover have "headers (call_auth a r) k =
     (if k = ''Authorization'' then Some (''ApiKey '' @ username a @ '':'' @ apikey a)
      else headers r k)"
    by (simp add: call_auth_def header_name_def auth_header_def)
  ultimately show ?thesis
    using call_auth_many [of a rs]
    by (simp add: call_auth_def auth_header_def)
qed

subsection \<open>What a failed assertion carries\<close>

text \<open>
  C7. The claim: the failure raised for a status outside the accepted set carries the
  status code and the raw body text. The \<^verbatim>\<open>assert\<close> is given \<^verbatim>\<open>response.text\<close> alone:
  a 404 and a 500 with the same body raise the same failure.
\<close>

theorem C7_counterexample:
  "status_code gone_404 \<noteq> status_code gone_500
   \<and> fst (get (reply gone_404) sample_loads anonymous ''hosts/'')
       = Inl (AssertionError (Str ''gone''))
   \<and> fst (get (reply gone_500) sample_loads anonymous ''hosts/'')
       = Inl (AssertionError (Str ''gone''))"
  by (simp add: get_def reply_def check_response_def gone_404_def gone_500_def)

text \<open>
  C7, as amended. For every call that fails on a status which is not 490 and not in the
  call's set (for login, not 487 either), the failure is the \<open>AssertionError\<close> made
  from the raw body text of the response, and from nothing else.
\<close>

theorem C7_failure_payload:
  assumes "status_code r \<noteq> 490"
  shows "(check_response r ss = Inr () \<or>
          check_response r ss = Inl (AssertionError (Str (body_text r))))
    \<and> (hash_password pw = Inr h \<longrightarrow> send (login_request h email t) = Inr r \<longrightarrow>
          status_code r \<noteq> 487 \<longrightarrow> status_code r \<noteq> 200 \<longrightarrow>
          fst (login send loads self email pw t) = Inl (AssertionError (Str (body_text r))))
    \<and> (send (get_request self ep) = Inr r \<longrightarrow> status_code r \<noteq> 200 \<longrightarrow>
          fst (get send loads self ep) = Inl (AssertionError (Str (body_text r))))
    \<and> (send (post_request self ep d) = Inr r \<longrightarrow> status_code r \<noteq> 201 \<longrightarrow>
          fst (post send loads self ep d) = Inl (AssertionError (Str (body_text r))))
    \<and> (send (put_request self ep d) = Inr r \<longrightarrow> status_code r \<notin> {200, 202} \<longrightarrow>
          fst (put send loads self ep d) = Inl (AssertionError (Str (body_text r))))
    \<and> (send (delete_request self ep) = Inr r \<longrightarrow> status_code r \<notin> {200, 204} \<longrightarrow>
          fst (delete send loads self ep) = Inl (AssertionError (Str (body_text r))))"
proof -
  have c: "check_response r ss = Inr () \<or>
          check_response r ss = Inl (AssertionError (Str (body_text r)))"
    using assms by (simp add: check_response_def Let_def)
  show ?thesis
    using assms c
    by (simp add: login_checked check_login_reject check_reject
        get_def post_def put_def delete_def)
qed

theorem C7_failure_payload_witness:
  "status_code gone_404 \<noteq> 490 \<and> status_code gone_404 \<noteq> 487
   \<and> status_code gone_404 \<notin> {200, 201, 202, 204}
   \<and> hash_password [112, 119] = Inr (hexdigest (sha256 [112, 119]))
   \<and> reply gone_404 (login_request (hexdigest (sha256 [112, 119])) ''a@b.com'' None)
       = Inr gone_404
   \<and> reply gone_404 (get_request anonymous ''hosts/'') = Inr gone_404
   \<and> fst (login (reply gone_404) sample_loads anonymous ''a@b.com'' [112, 119] None)
       = Inl (AssertionError (Str ''gone''))
   \<and> fst (get (reply gone_404) sample_loads anonymous ''hosts/'')
       = Inl (AssertionError (Str ''gone''))
   \<and> fst (post (reply gone_404) sample_loads anonymous ''hosts/'' JNull)
       = Inl (AssertionError (Str ''gone''))
   \<and> fst (put (reply gone_404) sample_loads anonymous ''hosts/'' JNull)
       = Inl (AssertionError (Str ''gone''))
   \<and> fst (delete (reply gone_404) sample_loads anonymous ''hosts/'')
       = Inl (AssertionError (Str ''gone''))"
proof -
  have s: "status_code gone_404 \<noteq> 490"
    by (simp add: gone_404_def)
  have v: "status_code gone_404 = 404" "body_text gone_404 = ''gone''"
    by (simp_all add: gone_404_def)
  show ?thesis
    using v hash_pw
      C7_failure_payload [OF s, where send = "reply gone_404" and loads = sample_loads
        and self = anonymous and pw = "[112, 119]" and h = "hexdigest (sha256 [112, 119])"
        and email = "''a@b.com''" and t = None and ep = "''hosts/''" and d = JNull
        and ss = "Some [200]"]
    by (simp add: reply_def)
qed

subsection \<open>What changes the signer\<close>

text \<open>
  C9. Whatever the transport answers and whatever the call returns or raises, the client
  after a get, post, put or delete is the client before it: none of them assigns
  \<^verbatim>\<open>self.auth\<close>.
\<close>

theorem C9_frame:
  "snd (get send loads self endpoint) = self
   \<and> snd (post send loads self endpoint data) = self
   \<and> snd (put send loads self endpoint data) = self
   \<and> snd (delete send loads self endpoint) = self"
  by (simp add: get_def post_def put_def delete_def split: sum.splits)

text \<open>
  C10. A client constructed with a credential that is missing or the empty string has no
  signer; a signer is created at construction exactly when both the username and the
  apikey are non-empty strings, and then it holds these two. \<open>set_auth\<close> installs a
  signer whatever its arguments are, the empty string included.
\<close>

theorem C10_init_and_set_auth:
  "((auth (API_init u k) = None) = (u = None \<or> u = Some [] \<or> k = None \<or> k = Some []))
   \<and> auth (API_init (Some (c # cs)) (Some (d # ds))) =
       Some \<lparr>username = c # cs, apikey = d # ds\<rparr>
   \<and> auth (set_auth self u' k') = Some \<lparr>username = u', apikey = k'\<rparr>
   \<and> auth (set_auth self [] []) = Some \<lparr>username = [], apikey = []\<rparr>"
  by (auto simp: API_init_def set_auth_def truthy_def split: option.splits)

subsection \<open>SHA-256 and the digest of a password\<close>

lemma hex_digit_mem: "n < 16 \<Longrightarrow> hex_digit n \<in> set hexdigits"
  unfolding hex_digit_def by (rule nth_mem) (simp add: hexdigits_def)

lemma hi_nibble: "unat (drop_bit 4 (b :: 8 word)) < 16"
proof -
  have "unat b < 256" using unsigned_less [of b] by simp
  moreover have "unat (drop_bit 4 b) = unat b div 16"
    by (simp add: drop_bit_eq_div unat_div)
  ultimately show ?thesis by simp
qed

lemma lo_nibble: "unat ((b :: 8 word) AND 15) < 16"
proof -
  have "unat (b AND 15) \<le> unat (15 :: 8 word)"
    by (rule word_and_le1 [THEN word_le_nat_alt [THEN iffD1]])
  then show ?thesis by simp
qed

lemma hex_byte_chars: "set (hex_byte b) \<subseteq> set hexdigits"
  using hex_digit_mem [OF hi_nibble [of b]] hex_digit_mem [OF lo_nibble [of b]]
  by (simp add: hex_byte_def)

lemma length_digest: "length (digest H) = 32"
  by (induction H rule: digest.induct) (simp add: word_bytes_def)

lemma length_concat_hex: "length (concat (map hex_byte bs)) = 2 * length bs"
  by (induction bs) (simp_all add: hex_byte_def)

lemma length_hexdigest: "length (hexdigest H) = 64"
  by (simp add: hexdigest_def length_concat_hex length_digest)

lemma concat_hex_chars: "set (concat (map hex_byte bs)) \<subseteq> set hexdigits"
proof (induction bs)
  case Nil
  show ?case by simp
next
  case (Cons b bs)
  then show ?case using hex_byte_chars [of b] by simp
qed

lemma hexdigest_chars: "set (hexdigest H) \<subseteq> set hexdigits"
  unfolding hexdigest_def by (rule concat_hex_chars)

text \<open>
  Equations for computing with numerals: on \<open>u32\<close> a sum or a shifted value is its own
  \<open>take_bit 32\<close>, which keeps every intermediate numeral below \<open>2 ^ 32\<close>.
\<close>

lemma take_bit_u32: "take_bit 32 (x :: u32) = x"
  using take_bit_length_eq [of x] by simp

lemma rotr_eval: "rotr n x = take_bit 32 (drop_bit n x OR push_bit (32 - n) x)"
  by (simp add: rotr_def take_bit_u32)

lemma sha_round_eval:
  "sha_round k ((a, b, c, d, e, f, g, h), ws) =
     (let t1 = take_bit 32 (h + Sigma1 e + Ch e f g + k + ws ! 0);
          t2 = take_bit 32 (Sigma0 a + Maj a b c)
      in ((take_bit 32 (t1 + t2), a, b, c, take_bit 32 (d + t1), e, f, g),
          tl ws @ [take_bit 32 (sigma1 (ws ! 14) + ws ! 9 + sigma0 (ws ! 1) + ws ! 0)]))"
  by (simp add: take_bit_u32)

lemma add_hash_eval:
  "add_hash (a, b, c, d, e, f, g, h) (a', b', c', d', e', f', g', h') =
     (take_bit 32 (a + a'), take_bit 32 (b + b'), take_bit 32 (c + c'), take_bit 32 (d + d'),
      take_bit 32 (e + e'), take_bit 32 (f + f'), take_bit 32 (g + g'), take_bit 32 (h + h'))"
  by (simp add: take_bit_u32)

lemmas sha_eval = K256_def Sigma0_def Sigma1_def sigma0_def sigma1_def Ch_def Maj_def
  rotr_eval sha_round_eval add_hash_eval

lemma replicate_numeral: "replicate (numeral k) x = x # replicate (pred_numeral k) x"
  by (simp add: numeral_eq_Suc)

lemma sha256_one_block:
  "length (be_words (pad m)) = 16 \<Longrightarrow> sha256 m = compress H256 (be_words (pad m))"
  by (simp add: sha256_def Let_def)

text \<open>The digest of the empty message.\<close>

lemma be_words_pad_empty:
  "be_words (pad []) = [0x80000000, 0, 0, 0, 0, 0, 0, 0, 0, 0, 0, 0, 0, 0, 0, 0]"
  by (simp add: pad_def be64_def replicate_numeral)

lemma compress_empty:
  "compress (0x6a09e667, 0xbb67ae85, 0x3c6ef372, 0xa54ff53a,
             0x510e527f, 0x9b05688c, 0x1f83d9ab, 0x5be0cd19)
     [0x80000000, 0, 0, 0, 0, 0, 0, 0, 0, 0, 0, 0, 0, 0, 0, 0] =
     (0xe3b0c442, 0x98fc1c14, 0x9afbf4c8, 0x996fb924,
      0x27ae41e4, 0x649b934c, 0xa495991b, 0x7852b855)"
  by (simp add: compress_def sha_eval del: sha_round.simps add_hash.simps)

lemma sha256_empty:
  "hexdigest (sha256 []) =
     ''e3b0c44298fc1c149afbf4c8996fb92427ae41e4649b934ca495991b7852b855''"
proof -
  have "sha256 [] =
     (0xe3b0c442, 0x98fc1c14, 0x9afbf4c8, 0x996fb924,
      0x27ae41e4, 0x649b934c, 0xa495991b, 0x7852b855)"
    using sha256_one_block [of "[]"] compress_empty
    by (simp add: be_words_pad_empty H256_def)
  then show ?thesis
    by (simp add: hexdigest_def word_bytes_def hex_byte_def hex_digit_def hexdigits_def)
qed

text \<open>The digest of \<open>abc\<close>, the first example message of the standard.\<close>

lemma be_words_pad_abc:
  "be_words (pad [0x61, 0x62, 0x63]) =
     [0x61626380, 0, 0, 0, 0, 0, 0, 0, 0, 0, 0, 0, 0, 0, 0, 0x18]"
  by (simp add: pad_def be64_def replicate_numeral)

lemma compress_abc:
  "compress (0x6a09e667, 0xbb67ae85, 0x3c6ef372, 0xa54ff53a,
             0x510e527f, 0x9b05688c, 0x1f83d9ab, 0x5be0cd19)
     [0x61626380, 0, 0, 0, 0, 0, 0, 0, 0, 0, 0, 0, 0, 0, 0, 0x18] =
     (0xba7816bf, 0x8f01cfea, 0x414140de, 0x5dae2223,
      0xb00361a3, 0x96177a9c, 0xb410ff61, 0xf20015ad)"
  by (simp add: compress_def sha_eval del: sha_round.simps add_hash.simps)

lemma sha256_abc:
  "hexdigest (sha256 [0x61, 0x62, 0x63]) =
     ''ba7816bf8f01cfea414140de5dae2223b00361a396177a9cb410ff61f20015ad''"
proof -
  have "sha256 [0x61, 0x62, 0x63] =
     (0xba7816bf, 0x8f01cfea, 0x414140de, 0x5dae2223,
      0xb00361a3, 0x96177a9c, 0xb410ff61, 0xf20015ad)"
    using sha256_one_block [of "[0x61, 0x62, 0x63]"] compress_abc
    by (simp add: be_words_pad_abc H256_def)
  then show ?thesis
    by (simp add: hexdigest_def word_bytes_def hex_byte_def hex_digit_def hexdigits_def)
qed

text \<open>
  The digest of the 56-byte example message of the standard, which takes two blocks.
\<close>

lemma sha256_two_blocks:
  "length (be_words (pad m)) = 32 \<Longrightarrow>
   sha256 m = compress (compress H256 (take 16 (be_words (pad m)))) (drop 16 (be_words (pad m)))"
  by (simp add: sha256_def Let_def upt_rec)

lemma be_words_pad_448:
  "be_words (pad
     [0x61, 0x62, 0x63, 0x64, 0x62, 0x63, 0x64, 0x65, 0x63, 0x64, 0x65, 0x66, 0x64, 0x65,
      0x66, 0x67, 0x65, 0x66, 0x67, 0x68, 0x66, 0x67, 0x68, 0x69, 0x67, 0x68, 0x69, 0x6a,
      0x68, 0x69, 0x6a, 0x6b, 0x69, 0x6a, 0x6b, 0x6c, 0x6a, 0x6b, 0x6c, 0x6d, 0x6b, 0x6c,
      0x6d, 0x6e, 0x6c, 0x6d, 0x6e, 0x6f, 0x6d, 0x6e, 0x6f, 0x70, 0x6e, 0x6f, 0x70, 0x71]) =
     [0x61626364, 0x62636465, 0x63646566, 0x64656667, 0x65666768, 0x66676869, 0x6768696a, 0x68696a6b,
      0x696a6b6c, 0x6a6b6c6d, 0x6b6c6d6e, 0x6c6d6e6f, 0x6d6e6f70, 0x6e6f7071, 0x80000000, 0,
      0, 0, 0, 0, 0, 0, 0, 0, 0, 0, 0, 0, 0, 0, 0, 0x1c0]"
  by (simp add: pad_def be64_def replicate_numeral)

lemma compress_448_first:
  "compress (0x6a09e667, 0xbb67ae85, 0x3c6ef372, 0xa54ff53a,
             0x510e527f, 0x9b05688c, 0x1f83d9ab, 0x5be0cd19)
     [0x61626364, 0x62636465, 0x63646566, 0x64656667, 0x65666768, 0x66676869, 0x6768696a, 0x68696a6b,
      0x696a6b6c, 0x6a6b6c6d, 0x6b6c6d6e, 0x6c6d6e6f, 0x6d6e6f70, 0x6e6f7071, 0x80000000, 0] =
     (0x85e655d6, 0x417a1795, 0x3363376a, 0x624cde5c,
      0x76e09589, 0xcac5f811, 0xcc4b32c1, 0xf20e533a)"
  by (simp add: compress_def sha_eval del: sha_round.simps add_hash.simps)

lemma compress_448_second:
  "compress (0x85e655d6, 0x417a1795, 0x3363376a, 0x624cde5c,
             0x76e09589, 0xcac5f811, 0xcc4b32c1, 0xf20e533a)
     [0, 0, 0, 0, 0, 0, 0, 0, 0, 0, 0, 0, 0, 0, 0, 0x1c0] =
     (0x248d6a61, 0xd20638b8, 0xe5c02693, 0x0c3e6039,
      0xa33ce459, 0x64ff2167, 0xf6ecedd4, 0x19db06c1)"
  by (simp add: compress_def sha_eval del: sha_round.simps add_hash.simps)

lemma sha256_448:
  "hexdigest (sha256
     [0x61, 0x62, 0x63, 0x64, 0x62, 0x63, 0x64, 0x65, 0x63, 0x64, 0x65, 0x66, 0x64, 0x65,
      0x66, 0x67, 0x65, 0x66, 0x67, 0x68, 0x66, 0x67, 0x68, 0x69, 0x67, 0x68, 0x69, 0x6a,
      0x68, 0x69, 0x6a, 0x6b, 0x69, 0x6a, 0x6b, 0x6c, 0x6a, 0x6b, 0x6c, 0x6d, 0x6b, 0x6c,
      0x6d, 0x6e, 0x6c, 0x6d, 0x6e, 0x6f, 0x6d, 0x6e, 0x6f, 0x70, 0x6e, 0x6f, 0x70, 0x71]) =
     ''248d6a61d20638b8e5c026930c3e6039a33ce45964ff2167f6ecedd419db06c1''"
proof -
  have "sha256
     [0x61, 0x62, 0x63, 0x64, 0x62, 0x63, 0x64, 0x65, 0x63, 0x64, 0x65, 0x66, 0x64, 0x65,
      0x66, 0x67, 0x65, 0x66, 0x67, 0x68, 0x66, 0x67, 0x68, 0x69, 0x67, 0x68, 0x69, 0x6a,
      0x68, 0x69, 0x6a, 0x6b, 0x69, 0x6a, 0x6b, 0x6c, 0x6a, 0x6b, 0x6c, 0x6d, 0x6b, 0x6c,
      0x6d, 0x6e, 0x6c, 0x6d, 0x6e, 0x6f, 0x6d, 0x6e, 0x6f, 0x70, 0x6e, 0x6f, 0x70, 0x71] =
     (0x248d6a61, 0xd20638b8, 0xe5c02693, 0x0c3e6039,
      0xa33ce459, 0x64ff2167, 0xf6ecedd4, 0x19db06c1)"
    using sha256_two_blocks [of
     "[0x61, 0x62, 0x63, 0x64, 0x62, 0x63, 0x64, 0x65, 0x63, 0x64, 0x65, 0x66, 0x64, 0x65,
      0x66, 0x67, 0x65, 0x66, 0x67, 0x68, 0x66, 0x67, 0x68, 0x69, 0x67, 0x68, 0x69, 0x6a,
      0x68, 0x69, 0x6a, 0x6b, 0x69, 0x6a, 0x6b, 0x6c, 0x6a, 0x6b, 0x6c, 0x6d, 0x6b, 0x6c,
      0x6d, 0x6e, 0x6c, 0x6d, 0x6e, 0x6f, 0x6d, 0x6e, 0x6f, 0x70, 0x6e, 0x6f, 0x70, 0x71]"]
      compress_448_first compress_448_second
    by (simp add: be_words_pad_448 H256_def)
  then show ?thesis
    by (simp add: hexdigest_def word_bytes_def hex_byte_def hex_digit_def hexdigits_def)
qed

text \<open>
  C8. The claim: for every password string the digest is a 64-character hexadecimal
  string. A password with a character outside Latin-1 has no digest: \<^verbatim>\<open>six.b\<close> raises
  on the euro sign (code point 8364).
\<close>

theorem C8_counterexample: "hash_password [8364] = Inl UnicodeEncodeError"
  by (simp add: hash_password_def six_b_def)

text \<open>
  C8, as amended. For every password whose characters are all below code point 256,
  \<open>hash_password\<close> returns the SHA-256 hex digest of the password's Latin-1 bytes, a
  string of 64 characters out of \<open>0123456789abcdef\<close>; equal passwords have equal
  digests; and the digest of the empty password is the known SHA-256 of the empty
  message.
\<close>

theorem C8_hash_password:
  "((\<forall>c \<in> set password. c < 256) \<longrightarrow>
      hash_password password = Inr (hexdigest (sha256 (map word_of_nat password)))
      \<and> (\<exists>d. hash_password password = Inr d \<and> length d = 64
             \<and> set d \<subseteq> set ''0123456789abcdef''))
   \<and> (password = password' \<longrightarrow> hash_password password = hash_password password')
   \<and> hash_password [] =
       Inr ''e3b0c44298fc1c149afbf4c8996fb92427ae41e4649b934ca495991b7852b855''"
proof -
  have latin1: "(\<forall>c \<in> set password. c < 256) \<longrightarrow>
      hash_password password = Inr (hexdigest (sha256 (map word_of_nat password)))
      \<and> (\<exists>d. hash_password password = Inr d \<and> length d = 64
             \<and> set d \<subseteq> set ''0123456789abcdef'')"
    using hexdigest_chars [of "sha256 (map word_of_nat password)"]
    by (simp add: hash_password_def six_b_def list_all_iff length_hexdigest hexdigits_def)
  have empty: "hash_password [] =
      Inr ''e3b0c44298fc1c149afbf4c8996fb92427ae41e4649b934ca495991b7852b855''"
    by (simp add: hash_password_def six_b_def sha256_empty)
  show ?thesis
  proof (intro conjI)
    show "(\<forall>c \<in> set password. c < 256) \<longrightarrow>
      hash_password password = Inr (hexdigest (sha256 (map word_of_nat password)))
      \<and> (\<exists>d. hash_password password = Inr d \<and> length d = 64
             \<and> set d \<subseteq> set ''0123456789abcdef'')"
      by (fact latin1)
    show "password = password' \<longrightarrow> hash_password password = hash_password password'"
      by simp
    show "hash_password [] =
      Inr ''e3b0c44298fc1c149afbf4c8996fb92427ae41e4649b934ca495991b7852b855''"
      by (fact empty)
  qed
qed

theorem C8_hash_password_witness:
  "(97 :: nat) < 256 \<and> (98 :: nat) < 256 \<and> (99 :: nat) < 256
   \<and> hash_password [97, 98, 99] =
       Inr ''ba7816bf8f01cfea414140de5dae2223b00361a396177a9cb410ff61f20015ad''
   \<and> length ''ba7816bf8f01cfea414140de5dae2223b00361a396177a9cb410ff61f20015ad'' = 64"
proof -
  have "hash_password [97, 98, 99] = Inr (hexdigest (sha256 (map word_of_nat [97, 98, 99])))"
    using C8_hash_password [of "[97, 98, 99]" "[97, 98, 99]"] by simp
  then show ?thesis
    using sha256_abc by simp
qed

end
